theory Spec2Isabelle
  imports Main "HOL-Library.AList"
begin

section \<open>JavaScript strings and the regular expressions of server.js\<close>

text \<open>
  A JavaScript string is modelled as a \<open>string\<close>; every \<open>char\<close> stands for the code
  unit of the same number (0 to 255). Of the characters that \<open>\s\<close> and
  \<open>String.prototype.trim\<close> treat as white space, these seven lie in that range:
  TAB, LF, VT, FF, CR, SPACE and NBSP.
\<close>

definition is_space :: "char \<Rightarrow> bool" where
  "is_space c = (c \<in> set [CHR 0x09, CHR 0x0A, CHR 0x0B, CHR 0x0C, CHR 0x0D, CHR 0x20, CHR 0xA0])"

definition is_digit :: "char \<Rightarrow> bool" where
  "is_digit c = (c \<in> set ''0123456789'')"

definition is_upper :: "char \<Rightarrow> bool" where
  "is_upper c = (c \<in> set ''ABCDEFGHIJKLMNOPQRSTUVWXYZ'')"

definition is_lower :: "char \<Rightarrow> bool" where
  "is_lower c = (c \<in> set ''abcdefghijklmnopqrstuvwxyz'')"

definition to_upper :: "char \<Rightarrow> char" where
  "to_upper c =
     (case map_of (zip ''abcdefghijklmnopqrstuvwxyz'' ''ABCDEFGHIJKLMNOPQRSTUVWXYZ'') c of
        Some u \<Rightarrow> u | None \<Rightarrow> c)"

definition to_lower :: "char \<Rightarrow> char" where
  "to_lower c =
     (case map_of (zip ''ABCDEFGHIJKLMNOPQRSTUVWXYZ'' ''abcdefghijklmnopqrstuvwxyz'') c of
        Some l \<Rightarrow> l | None \<Rightarrow> c)"

text \<open>\<open>s.trim()\<close>: white space is removed at both ends.\<close>

definition js_trim :: "string \<Rightarrow> string" where
  "js_trim s = rev (dropWhile is_space (rev (dropWhile is_space s)))"

subsection \<open>A matcher for anchored patterns\<close>

text \<open>
  All patterns of the program have the shape \<open>/^...$/\<close> and are used through
  \<open>RegExp.prototype.test\<close>, so a test succeeds exactly when the whole string belongs to
  the language of the pattern. The matcher takes the derivative of the pattern by each
  character in turn.
\<close>

datatype rex =
    Never
  | Empty
  | Cls "char \<Rightarrow> bool"
  | Seq rex rex
  | Alt rex rex
  | Star rex

fun nullable :: "rex \<Rightarrow> bool" where
  "nullable Never = False"
| "nullable Empty = True"
| "nullable (Cls P) = False"
| "nullable (Seq a b) = (nullable a \<and> nullable b)"
| "nullable (Alt a b) = (nullable a \<or> nullable b)"
| "nullable (Star a) = True"

fun deriv :: "char \<Rightarrow> rex \<Rightarrow> rex" where
  "deriv c Never = Never"
| "deriv c Empty = Never"
| "deriv c (Cls P) = (if P c then Empty else Never)"
| "deriv c (Seq a b) =
     (if nullable a then Alt (Seq (deriv c a) b) (deriv c b) else Seq (deriv c a) b)"
| "deriv c (Alt a b) = Alt (deriv c a) (deriv c b)"
| "deriv c (Star a) = Seq (deriv c a) (Star a)"

fun matches :: "rex \<Rightarrow> string \<Rightarrow> bool" where
  "matches r [] = nullable r"
| "matches r (c # cs) = matches (deriv c r) cs"

text \<open>
  The strings a pattern stands for. The matcher is proved below to accept exactly these
  (\<open>matches_lang\<close>).
\<close>

inductive_set star :: "string set \<Rightarrow> string set" for A :: "string set" where
  star_nil: "[] \<in> star A"
| star_app: "u \<in> A \<Longrightarrow> v \<in> star A \<Longrightarrow> u @ v \<in> star A"

fun lang :: "rex \<Rightarrow> string set" where
  "lang Never = {}"
| "lang Empty = {[]}"
| "lang (Cls P) = {[c] | c. P c}"
| "lang (Seq a b) = {u @ v | u v. u \<in> lang a \<and> v \<in> lang b}"
| "lang (Alt a b) = lang a \<union> lang b"
| "lang (Star a) = star (lang a)"

text \<open>Pattern syntax: a literal character, a literal word, \<open>r+\<close>, \<open>r?\<close>, a sequence of
  parts, a choice between parts.\<close>

definition chr :: "char \<Rightarrow> rex" where
  "chr c = Cls ((=) c)"

definition lit :: "string \<Rightarrow> rex" where
  "lit s = foldr (\<lambda>c r. Seq (chr c) r) s Empty"

definition many1 :: "rex \<Rightarrow> rex" where
  "many1 r = Seq r (Star r)"

definition opt :: "rex \<Rightarrow> rex" where
  "opt r = Alt r Empty"

definition seqs :: "rex list \<Rightarrow> rex" where
  "seqs rs = foldr Seq rs Empty"

definition alts :: "rex list \<Rightarrow> rex" where
  "alts rs = foldr Alt rs Never"

text \<open>
  The flag \<open>i\<close>: a character matches a class when its canonical form (its upper case) is
  the canonical form of a member of the class. Every class of the program holds ASCII
  characters only, and canonicalisation never maps a character outside ASCII into ASCII,
  so the members to try are the two ASCII cases of the character.
\<close>

definition either_case :: "(char \<Rightarrow> bool) \<Rightarrow> char \<Rightarrow> bool" where
  "either_case P c = (P (to_upper c) \<or> P (to_lower c))"

fun icase :: "rex \<Rightarrow> rex" where
  "icase Never = Never"
| "icase Empty = Empty"
| "icase (Cls P) = Cls (either_case P)"
| "icase (Seq a b) = Seq (icase a) (icase b)"
| "icase (Alt a b) = Alt (icase a) (icase b)"
| "icase (Star a) = Star (icase a)"

subsection \<open>The patterns\<close>

text \<open>\<open>/^[A-Za-z0-9._%+-]+@gmail\.com$/i\<close>\<close>

definition gmail_local :: "char \<Rightarrow> bool" where
  "gmail_local c = (is_upper c \<or> is_lower c \<or> is_digit c \<or> c \<in> set ''._%+-'')"

definition GMAIL_RE :: rex where
  "GMAIL_RE = icase (seqs [many1 (Cls gmail_local), lit ''@gmail.com''])"

text \<open>\<open>/^\d(st|nd|rd|th)\s+Year$/i\<close>\<close>

definition ORDINAL_RE :: rex where
  "ORDINAL_RE =
     icase (seqs [Cls is_digit,
                  alts [lit ''st'', lit ''nd'', lit ''rd'', lit ''th''],
                  many1 (Cls is_space),
                  lit ''Year''])"

text \<open>\<open>/^\d+$/\<close>\<close>

definition NUMYEAR_RE :: rex where
  "NUMYEAR_RE = many1 (Cls is_digit)"

text \<open>\<open>/^[A-Z]{1,4}-\d{3}-\d{5}$/\<close>\<close>

definition STUDENT_ID_RE :: rex where
  "STUDENT_ID_RE =
     seqs [Cls is_upper, opt (Cls is_upper), opt (Cls is_upper), opt (Cls is_upper),
           chr CHR ''-'',
           Cls is_digit, Cls is_digit, Cls is_digit,
           chr CHR ''-'',
           Cls is_digit, Cls is_digit, Cls is_digit, Cls is_digit, Cls is_digit]"

text \<open>\<open>/^[A-Za-z ]{2,}$/\<close> (used by the browser form only)\<close>

definition name_char :: "char \<Rightarrow> bool" where
  "name_char c = (is_upper c \<or> is_lower c \<or> c = CHR '' '')"

definition FULLNAME_RE :: rex where
  "FULLNAME_RE = seqs [Cls name_char, Cls name_char, Star (Cls name_char)]"

section \<open>Data model\<close>

text \<open>
  A request payload and a stored record are JavaScript objects: the properties in their
  order, each listed once with its value. The API contract sends every field as a string (the browser
  builds payloads from form entries and from split text), so property values are strings; a
  property that is not in the list reads as \<open>undefined\<close>. An object may carry any
  properties besides the seven fields.
\<close>

type_synonym jsobject = "(string \<times> string) list"

definition field :: "jsobject \<Rightarrow> string \<Rightarrow> string option" where
  "field obj k = map_of obj k"

text \<open>A parsed JSON document: an array of such objects, or some value that is no array
  (kept as its text).\<close>

datatype json_doc = Arr "jsobject list" | NonArr string

text \<open>The data file \<open>students.json\<close>: not there, there with text that is not JSON, or
  holding a document.\<close>

datatype data_file = NoFile | Unparsable | Holds json_doc

datatype js_exception = ReadError | TypeError

datatype llm_outcome = Failed | Answered "string option"

text \<open>
  What the process is started with: the bundled seed (\<open>require\<close>d once at start-up), the
  credential (the empty string when the variable is not set), and the external completion
  service, seen only through its outcome for the student data and the message sent.
\<close>

record config =
  SEED_STUDENTS :: json_doc
  GROQ_API_KEY :: string
  llm_post :: "json_doc \<Rightarrow> string \<Rightarrow> llm_outcome"

datatype body =
    ErrorBody string
  | RecordBody jsobject
  | DocBody json_doc
  | ReplyBody string

record response =
  status :: nat
  body :: body

definition respond :: "nat \<Rightarrow> body \<Rightarrow> response" where
  "respond code b = \<lparr>status = code, body = b\<rparr>"

section \<open>Data helpers\<close>

text \<open>
  \<open>ensureDataFile\<close> (server.js, lines 109 to 132): the seed is written when the file does not exist, when it holds the
  empty array, and when reading it throws. The operations of the file system themselves
  (creating the directory, writing) are taken to succeed.
\<close>

definition ensureDataFile :: "config \<Rightarrow> data_file \<Rightarrow> data_file" where
  "ensureDataFile cfg f =
     (case f of
        NoFile \<Rightarrow> Holds (SEED_STUDENTS cfg)
      | Holds current \<Rightarrow> (if current = Arr [] then Holds (SEED_STUDENTS cfg) else f)
      | Unparsable \<Rightarrow> Holds (SEED_STUDENTS cfg))"

definition readJson :: "data_file \<Rightarrow> js_exception + json_doc" where
  "readJson f = (case f of Holds d \<Rightarrow> Inr d | NoFile \<Rightarrow> Inl ReadError | Unparsable \<Rightarrow> Inl ReadError)"

definition readStudents :: "config \<Rightarrow> data_file \<Rightarrow> data_file \<times> (js_exception + json_doc)" where
  "readStudents cfg f = (let f' = ensureDataFile cfg f in (f', readJson f'))"

definition writeStudents :: "jsobject list \<Rightarrow> data_file" where
  "writeStudents students = Holds (Arr students)"

section \<open>Routes\<close>

subsection \<open>GET /students\<close>

text \<open>server.js, lines 149 to 156.\<close>

definition get_students :: "config \<Rightarrow> data_file \<Rightarrow> response \<times> data_file" where
  "get_students cfg f =
     (case readStudents cfg f of
        (f', Inr students) \<Rightarrow> (respond 200 (DocBody students), f')
      | (f', Inl e) \<Rightarrow> (respond 500 (ErrorBody ''Failed to read students.''), f'))"

subsection \<open>POST /students\<close>

definition required :: "string list" where
  "required = [''studentId'', ''fullName'', ''gender'', ''gmail'', ''program'', ''yearLevel'',
               ''university'']"

text \<open>server.js, lines 159 to 209. The test of the loop over the required fields:
  \<open>!payload[k] || String(payload[k]).trim() === ''\<close>\<close>

definition missing :: "jsobject \<Rightarrow> string \<Rightarrow> bool" where
  "missing payload k =
     (case field payload k of None \<Rightarrow> True | Some v \<Rightarrow> v = [] \<or> js_trim v = [])"

text \<open>\<open>re.test(payload.k)\<close>: the argument is converted to a string first, and
  \<open>undefined\<close> converts to its name.\<close>

definition test :: "rex \<Rightarrow> string option \<Rightarrow> bool" where
  "test re v = (case v of None \<Rightarrow> matches re ''undefined'' | Some s \<Rightarrow> matches re s)"

text \<open>The checks that end the request with status 400, and the message each one sends.\<close>

datatype failure = MissingField string | BadGmail | BadYearLevel | BadStudentId

fun error_text :: "failure \<Rightarrow> string" where
  "error_text (MissingField k) = ''Missing field: '' @ k"
| "error_text BadGmail = ''Email must be a valid Gmail address.''"
| "error_text BadYearLevel = ''Year Level must be like \"1st Year\" or a number.''"
| "error_text BadStudentId = ''Student ID format invalid (e.g., BP-113-00001).''"

definition validate :: "jsobject \<Rightarrow> failure option" where
  "validate payload =
     (case find (missing payload) required of
        Some k \<Rightarrow> Some (MissingField k)
      | None \<Rightarrow>
          if \<not> test GMAIL_RE (field payload ''gmail'') then Some BadGmail
          else
            let isOrdinal = test ORDINAL_RE (field payload ''yearLevel'');
                isNumYear = test NUMYEAR_RE (field payload ''yearLevel'')
            in if \<not> isOrdinal \<and> \<not> isNumYear then Some BadYearLevel
               else if \<not> test STUDENT_ID_RE (field payload ''studentId'') then Some BadStudentId
               else None)"

text \<open>\<open>(s) => s.studentId === payload.studentId\<close>\<close>

definition same_id :: "jsobject \<Rightarrow> jsobject \<Rightarrow> bool" where
  "same_id payload s = (field s ''studentId'' = field payload ''studentId'')"

text \<open>
  After the checks: the collection is read, \<open>students.some(...)\<close> looks for the
  identifier (a \<open>TypeError\<close> when the document is no array, caught as status 500), and the
  payload itself is pushed, written and sent back.
\<close>

definition post_students :: "config \<Rightarrow> data_file \<Rightarrow> jsobject \<Rightarrow> response \<times> data_file" where
  "post_students cfg f payload =
     (case validate payload of
        Some e \<Rightarrow> (respond 400 (ErrorBody (error_text e)), f)
      | None \<Rightarrow>
          (case readStudents cfg f of
             (f', Inl e) \<Rightarrow> (respond 500 (ErrorBody ''Failed to add student.''), f')
           | (f', Inr (NonArr t)) \<Rightarrow> (respond 500 (ErrorBody ''Failed to add student.''), f')
           | (f', Inr (Arr students)) \<Rightarrow>
               if list_ex (same_id payload) students
               then (respond 409 (ErrorBody ''Student ID already exists.''), f')
               else (respond 201 (RecordBody payload), writeStudents (students @ [payload]))))"

subsection \<open>DELETE /students/:id\<close>

text \<open>server.js, lines 212 to 225. \<open>findIndex\<close>: the index of the first element that satisfies the test, \<open>None\<close> for
  \<open>-1\<close>.\<close>

fun findIndex :: "('a \<Rightarrow> bool) \<Rightarrow> 'a list \<Rightarrow> nat option" where
  "findIndex P [] = None"
| "findIndex P (x # xs) =
     (if P x then Some 0 else map_option Suc (findIndex P xs))"

text \<open>\<open>students.splice(idx, 1)\<close> for an index in range: the removed element and the array
  that is left.\<close>

definition splice1 :: "nat \<Rightarrow> 'a list \<Rightarrow> 'a \<times> 'a list" where
  "splice1 idx xs = (xs ! idx, take idx xs @ drop (Suc idx) xs)"

text \<open>\<open>(s) => s.studentId === id\<close>\<close>

definition has_id :: "string \<Rightarrow> jsobject \<Rightarrow> bool" where
  "has_id ident s = (field s ''studentId'' = Some ident)"

definition delete_student :: "config \<Rightarrow> data_file \<Rightarrow> string \<Rightarrow> response \<times> data_file" where
  "delete_student cfg f ident =
     (case readStudents cfg f of
        (f', Inl e) \<Rightarrow> (respond 500 (ErrorBody ''Failed to delete student.''), f')
      | (f', Inr (NonArr t)) \<Rightarrow> (respond 500 (ErrorBody ''Failed to delete student.''), f')
      | (f', Inr (Arr students)) \<Rightarrow>
          (case findIndex (has_id ident) students of
             None \<Rightarrow> (respond 404 (ErrorBody ''Not found''), f')
           | Some idx \<Rightarrow>
               (case splice1 idx students of
                  (removed, rest) \<Rightarrow> (respond 200 (RecordBody removed), writeStudents rest))))"

subsection \<open>POST /chat\<close>

text \<open>
  server.js, lines 228 to 289. The message of the request body: \<open>None\<close> when the body has no \<open>message\<close> or one that is
  not a string. The empty string is falsy.
\<close>

definition is_array_nonempty :: "json_doc \<Rightarrow> bool" where
  "is_array_nonempty d = (case d of Arr students \<Rightarrow> students \<noteq> [] | NonArr t \<Rightarrow> False)"

definition post_chat :: "config \<Rightarrow> data_file \<Rightarrow> string option \<Rightarrow> response \<times> data_file" where
  "post_chat cfg f message =
     (case message of
        None \<Rightarrow> (respond 400 (ErrorBody ''Message is required.''), f)
      | Some m \<Rightarrow>
          if m = [] then (respond 400 (ErrorBody ''Message is required.''), f)
          else
            (case readStudents cfg f of
               (f', Inl e) \<Rightarrow> (respond 500 (ErrorBody ''Failed to contact LLM API.''), f')
             | (f', Inr students) \<Rightarrow>
                 if \<not> is_array_nonempty students
                 then (respond 400 (ErrorBody ''No student data available.''), f')
                 else if GROQ_API_KEY cfg = []
                 then (respond 500 (ErrorBody ''LLM API key not configured on the server.''), f')
                 else
                   (case llm_post cfg students m of
                      Failed \<Rightarrow> (respond 500 (ErrorBody ''Failed to contact LLM API.''), f')
                    | Answered content \<Rightarrow>
                        (case map_option js_trim content of
                           None \<Rightarrow> (respond 500 (ErrorBody ''Empty reply from LLM.''), f')
                         | Some reply \<Rightarrow>
                             if reply = []
                             then (respond 500 (ErrorBody ''Empty reply from LLM.''), f')
                             else (respond 200 (ReplyBody reply), f')))))"

subsection \<open>The checks of POST /students, one by one\<close>

text \<open>The checks in the order in which the handler runs them, and the condition under
  which each one fails.\<close>

definition server_checks :: "failure list" where
  "server_checks = map MissingField required @ [BadGmail, BadYearLevel, BadStudentId]"

fun check_fails :: "jsobject \<Rightarrow> failure \<Rightarrow> bool" where
  "check_fails payload (MissingField k) = missing payload k"
| "check_fails payload BadGmail = (\<not> test GMAIL_RE (field payload ''gmail''))"
| "check_fails payload BadYearLevel =
     (\<not> test ORDINAL_RE (field payload ''yearLevel'') \<and>
      \<not> test NUMYEAR_RE (field payload ''yearLevel''))"
| "check_fails payload BadStudentId = (\<not> test STUDENT_ID_RE (field payload ''studentId''))"

section \<open>The browser form (app.js)\<close>

text \<open>
  \<open>wireForm\<close> (app.js, lines 110 to 137) checks the form data before it calls the API and collects every message.
  \<open>data.program.trim()\<close> throws when the property is not there.
\<close>

definition form_errors :: "jsobject \<Rightarrow> js_exception + string list" where
  "form_errors data =
     (case (field data ''program'', field data ''university'') of
        (Some program, Some university) \<Rightarrow>
          Inr ((if \<not> test STUDENT_ID_RE (field data ''studentId'')
                then [''Student ID must look like BP-113-00001.''] else []) @
               (if \<not> test FULLNAME_RE (field data ''fullName'')
                then [''Full Name must be letters/spaces.''] else []) @
               (if \<not> test GMAIL_RE (field data ''gmail'')
                then [''Gmail must be a valid @gmail.com email.''] else []) @
               (if js_trim program = [] then [''Program is required.''] else []) @
               (if js_trim university = [] then [''University is required.''] else []) @
               (let yl = js_trim (case field data ''yearLevel'' of None \<Rightarrow> ''undefined'' | Some v \<Rightarrow> v)
                in if \<not> matches NUMYEAR_RE yl \<and> \<not> matches ORDINAL_RE yl
                   then [''Year Level must be like \"5th Year\" or a number 1..6.''] else []))
      | _ \<Rightarrow> Inl TypeError)"

section \<open>The validation rules as the specification words them\<close>

text \<open>
  The table of the specification, in its order: studentId, fullName, gmail, program,
  university, yearLevel, gender. A field that is not a string of the candidate breaks its
  rule.
\<close>

definition spec_rules :: "(string \<times> (string \<Rightarrow> bool)) list" where
  "spec_rules =
     [(''studentId'', matches STUDENT_ID_RE),
      (''fullName'', matches FULLNAME_RE),
      (''gmail'', matches GMAIL_RE),
      (''program'', \<lambda>v. js_trim v \<noteq> []),
      (''university'', \<lambda>v. js_trim v \<noteq> []),
      (''yearLevel'', \<lambda>v. matches NUMYEAR_RE v \<or> matches ORDINAL_RE v),
      (''gender'', \<lambda>v. v \<noteq> [])]"

definition spec_broken :: "jsobject \<Rightarrow> string \<times> (string \<Rightarrow> bool) \<Rightarrow> bool" where
  "spec_broken candidate kr =
     (case field candidate (fst kr) of None \<Rightarrow> True | Some v \<Rightarrow> \<not> snd kr v)"

definition spec_violations :: "jsobject \<Rightarrow> string list" where
  "spec_violations candidate = map fst (filter (spec_broken candidate) spec_rules)"

definition spec_valid :: "jsobject \<Rightarrow> bool" where
  "spec_valid candidate = (spec_violations candidate = [])"

text \<open>"A bare positive integer": decimal digits only, at least one of them, and a value
  above zero.\<close>

definition spec_bare_positive_integer :: "string \<Rightarrow> bool" where
  "spec_bare_positive_integer s =
     (s \<noteq> [] \<and> list_all is_digit s \<and> list_ex (\<lambda>c. c \<noteq> CHR ''0'') s)"

section \<open>Sample data\<close>

text \<open>The two rows of the usage note of tools/paste-to-json.js; the first is the example
  record of the specification.\<close>

definition chelsea :: jsobject where
  "chelsea =
     [(''studentId'', ''BP-113-00001''), (''fullName'', ''Chelsea Greer''),
      (''gender'', ''Female''), (''gmail'', ''chelseagreer@gmail.com''),
      (''program'', ''BS Physics''), (''yearLevel'', ''5th Year''),
      (''university'', ''Caraga State University - Cabadbaran Campus'')]"

definition nicolas :: jsobject where
  "nicolas =
     [(''studentId'', ''BM-113-00002''), (''fullName'', ''Nicolas Medina''),
      (''gender'', ''Male''), (''gmail'', ''nicolasmedina@gmail.com''),
      (''program'', ''BS Mathematics''), (''yearLevel'', ''5th Year''),
      (''university'', ''Caraga State University - Main Campus'')]"

text \<open>\<open>with_field k v obj\<close>: the object with the property set, as an object literal that
  names the property again would build it.\<close>

definition with_field :: "string \<Rightarrow> string \<Rightarrow> jsobject \<Rightarrow> jsobject" where
  "with_field k v obj = AList.update k v obj"

text \<open>A configuration without credential whose seed is the second row.\<close>

definition cfg_nicolas :: config where
  "cfg_nicolas = \<lparr>SEED_STUDENTS = Arr [nicolas], GROQ_API_KEY = [], llm_post = (\<lambda>d m. Failed)\<rparr>"

text \<open>A configuration with a credential and an answering completion service.\<close>

definition cfg_live :: config where
  "cfg_live =
     \<lparr>SEED_STUDENTS = Arr [nicolas], GROQ_API_KEY = ''gsk_test'',
      llm_post = (\<lambda>d m. Answered (Some ''There is one student.''))\<rparr>"

text \<open>Candidates built from the first row.\<close>

definition chelsea_nick :: jsobject where
  "chelsea_nick = chelsea @ [(''nickname'', ''Chels'')]"

definition blank_name :: jsobject where
  "blank_name = with_field ''fullName'' ''  '' chelsea"

definition digit_name :: jsobject where
  "digit_name = with_field ''fullName'' ''Ch3lsea Gr33r!'' chelsea"

definition two_bad :: jsobject where
  "two_bad = with_field ''studentId'' ''bad'' (with_field ''gmail'' ''x@yahoo.com'' chelsea)"

definition only_id :: jsobject where
  "only_id = [(''studentId'', ''BP-113-00001'')]"

definition year_zero :: jsobject where
  "year_zero = with_field ''yearLevel'' ''0'' chelsea"

definition year_five :: jsobject where
  "year_five = with_field ''yearLevel'' ''five'' chelsea"

section \<open>Facts about the matcher and the patterns\<close>

lemma nullable_lang: "nullable r = ([] \<in> lang r)"
  by (induction r) (auto intro: star_nil)

lemma star_Cons:
  "(c # w \<in> star A) = (\<exists>u v. w = u @ v \<and> c # u \<in> A \<and> v \<in> star A)"
proof
  assume "c # w \<in> star A"
  then show "\<exists>u v. w = u @ v \<and> c # u \<in> A \<and> v \<in> star A"
  proof (induction "c # w" rule: star.induct)
    case (star_app u v)
    show ?case
    proof (cases u)
      case Nil
      with star_app show ?thesis by simp
    next
      case (Cons d u')
      with star_app.hyps show ?thesis by auto
    qed
  qed
next
  assume "\<exists>u v. w = u @ v \<and> c # u \<in> A \<and> v \<in> star A"
  then obtain u v where "w = u @ v" "c # u \<in> A" "v \<in> star A"
    by blast
  then show "c # w \<in> star A"
    using star_app [of "c # u" A v] by simp
qed

lemma deriv_lang: "(w \<in> lang (deriv c r)) = (c # w \<in> lang r)"
proof (induction r arbitrary: w)
  case (Seq a b)
  have "(c # w \<in> lang (Seq a b)) =
        (([] \<in> lang a \<and> c # w \<in> lang b) \<or>
         (\<exists>u v. w = u @ v \<and> c # u \<in> lang a \<and> v \<in> lang b))"
    by (auto simp: Cons_eq_append_conv)
  with Seq show ?case
    by (auto simp: nullable_lang)
next
  case (Star a)
  then show ?case
    by (auto simp: star_Cons)
qed auto

lemma matches_lang: "matches r s = (s \<in> lang r)"
  by (induction s arbitrary: r) (simp_all add: nullable_lang deriv_lang)

lemma matches_Never: "\<not> matches Never s"
  by (induction s) simp_all

lemma matches_Seq_Never: "\<not> matches (Seq Never r) s"
  by (induction s) simp_all

lemma matches_Alt: "matches (Alt a b) s = (matches a s \<or> matches b s)"
  by (induction s arbitrary: a b) simp_all

lemma matches_Seq_Empty: "matches (Seq Empty r) s = matches r s"
  by (cases s) (simp_all add: matches_Alt matches_Seq_Never)

lemma matches_Star_Cls: "matches (Star (Cls P)) s = list_all P s"
proof (induction s)
  case Nil
  show ?case by simp
next
  case (Cons c cs)
  show ?case
  proof (cases "P c")
    case True
    with Cons show ?thesis by (simp add: matches_Seq_Empty)
  next
    case False
    then show ?thesis by (simp add: matches_Seq_Never)
  qed
qed

lemma matches_many1_Cls: "matches (many1 (Cls P)) s = (s \<noteq> [] \<and> list_all P s)"
proof (cases s)
  case Nil
  then show ?thesis by (simp add: many1_def)
next
  case (Cons c cs)
  then show ?thesis
    by (cases "P c") (simp_all add: many1_def matches_Seq_Empty matches_Seq_Never matches_Star_Cls)
qed

lemma matches_Seq_Cls_first:
  "matches (Seq (Cls P) r) s \<Longrightarrow> \<exists>c cs. s = c # cs \<and> P c"
proof (cases s)
  case Nil
  assume "matches (Seq (Cls P) r) s"
  with Nil show ?thesis by simp
next
  case (Cons c cs)
  assume m: "matches (Seq (Cls P) r) s"
  show ?thesis
  proof (cases "P c")
    case True
    with Cons show ?thesis by simp
  next
    case False
    with m Cons show ?thesis by (simp add: matches_Seq_Never)
  qed
qed

lemma numyear_digits: "matches NUMYEAR_RE s = (s \<noteq> [] \<and> list_all is_digit s)"
  by (simp add: NUMYEAR_RE_def matches_many1_Cls)

lemma student_id_first: "matches STUDENT_ID_RE s \<Longrightarrow> \<exists>c cs. s = c # cs \<and> is_upper c"
  by (auto simp: STUDENT_ID_RE_def seqs_def dest!: matches_Seq_Cls_first)

lemma ordinal_first: "matches ORDINAL_RE s \<Longrightarrow> \<exists>c cs. s = c # cs \<and> either_case is_digit c"
  by (auto simp: ORDINAL_RE_def seqs_def dest!: matches_Seq_Cls_first)

lemma matches_Seq_Seq_Cls_first:
  "matches (Seq (Seq (Cls P) q) r) s \<Longrightarrow> \<exists>c cs. s = c # cs \<and> P c"
proof (cases s)
  case Nil
  assume "matches (Seq (Seq (Cls P) q) r) s"
  with Nil show ?thesis by simp
next
  case (Cons c cs)
  assume m: "matches (Seq (Seq (Cls P) q) r) s"
  show ?thesis
  proof (cases "P c")
    case True
    with Cons show ?thesis by simp
  next
    case False
    have "\<not> matches (Seq (Seq Never q) r) cs" for cs
      by (induction cs) simp_all
    with False m Cons show ?thesis by simp
  qed
qed

lemma gmail_first: "matches GMAIL_RE s \<Longrightarrow> \<exists>c cs. s = c # cs \<and> either_case gmail_local c"
  by (auto simp: GMAIL_RE_def seqs_def many1_def dest!: matches_Seq_Seq_Cls_first)

lemma space_not_upper: "is_space c \<Longrightarrow> \<not> is_upper c"
proof -
  have "\<forall>c \<in> set [CHR 0x09, CHR 0x0A, CHR 0x0B, CHR 0x0C, CHR 0x0D, CHR 0x20, CHR 0xA0].
          \<not> is_upper c"
    by code_simp
  then show "is_space c \<Longrightarrow> \<not> is_upper c"
    unfolding is_space_def by blast
qed

lemma space_not_digit: "is_space c \<Longrightarrow> \<not> is_digit c"
proof -
  have "\<forall>c \<in> set [CHR 0x09, CHR 0x0A, CHR 0x0B, CHR 0x0C, CHR 0x0D, CHR 0x20, CHR 0xA0].
          \<not> is_digit c"
    by code_simp
  then show "is_space c \<Longrightarrow> \<not> is_digit c"
    unfolding is_space_def by blast
qed

lemma space_not_digit_ci: "is_space c \<Longrightarrow> \<not> either_case is_digit c"
proof -
  have "\<forall>c \<in> set [CHR 0x09, CHR 0x0A, CHR 0x0B, CHR 0x0C, CHR 0x0D, CHR 0x20, CHR 0xA0].
          \<not> either_case is_digit c"
    by code_simp
  then show "is_space c \<Longrightarrow> \<not> either_case is_digit c"
    unfolding is_space_def by blast
qed

lemma space_not_gmail_local: "is_space c \<Longrightarrow> \<not> either_case gmail_local c"
proof -
  have "\<forall>c \<in> set [CHR 0x09, CHR 0x0A, CHR 0x0B, CHR 0x0C, CHR 0x0D, CHR 0x20, CHR 0xA0].
          \<not> either_case gmail_local c"
    by code_simp
  then show "is_space c \<Longrightarrow> \<not> either_case gmail_local c"
    unfolding is_space_def by blast
qed

lemma js_trim_Cons: "\<not> is_space c \<Longrightarrow> js_trim (c # cs) \<noteq> []"
  by (simp add: js_trim_def dropWhile_eq_Nil_conv)

section \<open>Facts about the checks of POST /students\<close>

lemma not_missing_Cons: "field p k = Some (c # cs) \<Longrightarrow> \<not> is_space c \<Longrightarrow> \<not> missing p k"
  by (simp add: missing_def js_trim_Cons)

lemma missing_iff: "missing p k = (\<forall>v. field p k = Some v \<longrightarrow> js_trim v = [])"
  by (auto simp: missing_def js_trim_def split: option.splits)

lemma find_missing_None:
  "(find (missing p) required = None) =
     (\<not> missing p ''studentId'' \<and> \<not> missing p ''fullName'' \<and> \<not> missing p ''gender'' \<and>
      \<not> missing p ''gmail'' \<and> \<not> missing p ''program'' \<and> \<not> missing p ''yearLevel'' \<and>
      \<not> missing p ''university'')"
  by (simp add: required_def)

lemma validate_None_iff:
  "(validate p = None) =
     (find (missing p) required = None \<and>
      test GMAIL_RE (field p ''gmail'') \<and>
      (test ORDINAL_RE (field p ''yearLevel'') \<or> test NUMYEAR_RE (field p ''yearLevel'')) \<and>
      test STUDENT_ID_RE (field p ''studentId''))"
  by (auto simp: validate_def Let_def split: option.splits)

lemma validate_first_failing: "validate p = find (check_fails p) server_checks"
  by (simp add: validate_def server_checks_def required_def Let_def)

lemma spec_valid_iff:
  "spec_valid p =
     (\<not> spec_broken p (''studentId'', matches STUDENT_ID_RE) \<and>
      \<not> spec_broken p (''fullName'', matches FULLNAME_RE) \<and>
      \<not> spec_broken p (''gmail'', matches GMAIL_RE) \<and>
      \<not> spec_broken p (''program'', \<lambda>v. js_trim v \<noteq> []) \<and>
      \<not> spec_broken p (''university'', \<lambda>v. js_trim v \<noteq> []) \<and>
      \<not> spec_broken p (''yearLevel'', \<lambda>v. matches NUMYEAR_RE v \<or> matches ORDINAL_RE v) \<and>
      \<not> spec_broken p (''gender'', \<lambda>v. v \<noteq> []))"
  by (simp add: spec_valid_def spec_violations_def spec_rules_def)

lemma spec_broken_iff:
  "(\<not> spec_broken p (k, rule)) = (\<exists>v. field p k = Some v \<and> rule v)"
  by (simp add: spec_broken_def split: option.splits)


lemma test_Some: "test re (Some v) = matches re v"
  by (simp add: test_def)

lemma numyear_first: "matches NUMYEAR_RE s \<Longrightarrow> \<exists>c cs. s = c # cs \<and> is_digit c"
  unfolding numyear_digits by (cases s) simp_all

lemma spec_valid_imp_validate:
  assumes valid: "spec_valid p"
    and name: "\<not> missing p ''fullName''"
    and gender: "\<not> missing p ''gender''"
  shows "validate p = None"
proof -
  from valid obtain sid gm prog univ yl where
    sid: "field p ''studentId'' = Some sid" "matches STUDENT_ID_RE sid" and
    gm: "field p ''gmail'' = Some gm" "matches GMAIL_RE gm" and
    prog: "field p ''program'' = Some prog" "js_trim prog \<noteq> []" and
    univ: "field p ''university'' = Some univ" "js_trim univ \<noteq> []" and
    yl: "field p ''yearLevel'' = Some yl" "matches NUMYEAR_RE yl \<or> matches ORDINAL_RE yl"
    unfolding spec_valid_iff spec_broken_iff by blast
  from sid(2) obtain c cs where "sid = c # cs" "is_upper c"
    using student_id_first by blast
  with sid(1) have m1: "\<not> missing p ''studentId''"
    using not_missing_Cons space_not_upper by blast
  from gm(2) obtain c cs where "gm = c # cs" "either_case gmail_local c"
    using gmail_first by blast
  with gm(1) have m2: "\<not> missing p ''gmail''"
    using not_missing_Cons space_not_gmail_local by blast
  have m3: "\<not> missing p ''program''"
    using prog by (simp add: missing_iff)
  have m4: "\<not> missing p ''university''"
    using univ by (simp add: missing_iff)
  from yl(2) obtain c cs where "yl = c # cs" "is_digit c \<or> either_case is_digit c"
    using ordinal_first numyear_first by blast
  with yl(1) have m5: "\<not> missing p ''yearLevel''"
    using not_missing_Cons space_not_digit space_not_digit_ci by blast
  from m1 m2 m3 m4 m5 name gender have "find (missing p) required = None"
    by (simp add: find_missing_None)
  with sid gm yl show ?thesis
    by (auto simp: validate_None_iff test_Some)
qed

lemma not_missing_field: "\<not> missing p k \<Longrightarrow> \<exists>v. field p k = Some v \<and> v \<noteq> [] \<and> js_trim v \<noteq> []"
  by (auto simp: missing_def split: option.splits)

lemma validate_None_violations:
  assumes "validate p = None"
  shows "length (spec_violations p) \<le> 1"
proof -
  from assms have nm: "find (missing p) required = None"
    and t: "test GMAIL_RE (field p ''gmail'')"
      "test ORDINAL_RE (field p ''yearLevel'') \<or> test NUMYEAR_RE (field p ''yearLevel'')"
      "test STUDENT_ID_RE (field p ''studentId'')"
    by (simp_all add: validate_None_iff)
  from nm have m: "\<not> missing p ''studentId''" "\<not> missing p ''gender''" "\<not> missing p ''gmail''"
    "\<not> missing p ''program''" "\<not> missing p ''yearLevel''" "\<not> missing p ''university''"
    by (simp_all add: find_missing_None)
  have b1: "\<not> spec_broken p (''studentId'', matches STUDENT_ID_RE)"
    using not_missing_field [OF m(1)] t(3) by (auto simp: spec_broken_iff test_Some)
  have b2: "\<not> spec_broken p (''gmail'', matches GMAIL_RE)"
    using not_missing_field [OF m(3)] t(1) by (auto simp: spec_broken_iff test_Some)
  have b3: "\<not> spec_broken p (''program'', \<lambda>v. js_trim v \<noteq> [])"
    using not_missing_field [OF m(4)] by (auto simp: spec_broken_iff)
  have b4: "\<not> spec_broken p (''university'', \<lambda>v. js_trim v \<noteq> [])"
    using not_missing_field [OF m(6)] by (auto simp: spec_broken_iff)
  have b5: "\<not> spec_broken p (''yearLevel'', \<lambda>v. matches NUMYEAR_RE v \<or> matches ORDINAL_RE v)"
    using not_missing_field [OF m(5)] t(2) by (auto simp: spec_broken_iff test_Some)
  have b6: "\<not> spec_broken p (''gender'', \<lambda>v. v \<noteq> [])"
    using not_missing_field [OF m(2)] by (auto simp: spec_broken_iff)
  from b1 b2 b3 b4 b5 b6 show ?thesis
    by (simp add: spec_violations_def spec_rules_def)
qed

section \<open>Facts about \<open>findIndex\<close>\<close>

lemma findIndex_None: "(findIndex P xs = None) = (\<not> list_ex P xs)"
  by (induction xs) auto

lemma findIndex_Some:
  "findIndex P xs = Some i \<Longrightarrow>
     xs = take i xs @ xs ! i # drop (Suc i) xs \<and> \<not> list_ex P (take i xs) \<and> P (xs ! i)"
proof (induction xs arbitrary: i)
  case Nil
  then show ?case by simp
next
  case (Cons x xs)
  show ?case
  proof (cases "P x")
    case True
    with Cons.prems show ?thesis by simp
  next
    case False
    with Cons.prems obtain j where j: "findIndex P xs = Some j" "i = Suc j"
      by auto
    from Cons.IH [OF j(1)] False j(2) show ?thesis by simp
  qed
qed

section \<open>Facts about the data helpers\<close>

lemma ensureDataFile_nonempty:
  "students \<noteq> [] \<Longrightarrow> ensureDataFile cfg (Holds (Arr students)) = Holds (Arr students)"
  by (simp add: ensureDataFile_def)

lemma readStudents_ensure:
  "ensureDataFile cfg f = Holds d \<Longrightarrow> readStudents cfg f = (Holds d, Inr d)"
  by (simp add: readStudents_def readJson_def)

lemma ensureDataFile_Holds: "\<exists>d. ensureDataFile cfg f = Holds d"
  by (cases f) (simp_all add: ensureDataFile_def)

section \<open>Facts about the routes\<close>

lemma post_students_valid:
  assumes "validate payload = None" "ensureDataFile cfg f = Holds (Arr students)"
  shows "post_students cfg f payload =
           (if list_ex (same_id payload) students
            then (respond 409 (ErrorBody ''Student ID already exists.''), Holds (Arr students))
            else (respond 201 (RecordBody payload), Holds (Arr (students @ [payload]))))"
  using assms by (simp add: post_students_def readStudents_ensure writeStudents_def)

lemma post_students_invalid:
  "validate payload = Some e \<Longrightarrow>
     post_students cfg f payload = (respond 400 (ErrorBody (error_text e)), f)"
  by (simp add: post_students_def)

lemma get_students_nonempty:
  "students \<noteq> [] \<Longrightarrow>
     get_students cfg (Holds (Arr students)) =
       (respond 200 (DocBody (Arr students)), Holds (Arr students))"
  by (simp add: get_students_def readStudents_ensure ensureDataFile_nonempty)

lemma not_listed_by_id:
  "\<not> list_ex (same_id p) students \<Longrightarrow> count_list students p = 0"
  by (induction students) (auto simp: same_id_def)

lemma digits_first: "s \<noteq> [] \<Longrightarrow> list_all is_digit s \<Longrightarrow> \<exists>c cs. s = c # cs \<and> is_digit c"
  by (cases s) simp_all

text \<open>The example record of the specification passes every rule and every check.\<close>

lemma chelsea_spec_valid: "spec_valid chelsea"
  by code_simp

lemma chelsea_validate: "validate chelsea = None"
  by code_simp

section \<open>Claims\<close>

text \<open>
  C1, as the code has it. Let the current collection be what POST /students reads: the
  persisted document, or the seed when the file is absent, unreadable or holds the empty
  array. For every candidate that satisfies all seven rules of the specification, whose
  fullName and gender are not blank (the handler trims before it tests for presence), and
  whose studentId is the studentId of no record of the current collection, which is an
  array: POST /students answers 201 with the candidate and writes the collection with
  the candidate appended; GET /students then answers 200 with that collection, which
  contains the candidate exactly once.
\<close>

theorem create_then_list_once:
  assumes "spec_valid payload"
    and "\<not> missing payload ''fullName''"
    and "\<not> missing payload ''gender''"
    and "ensureDataFile cfg f = Holds (Arr students)"
    and "\<not> list_ex (same_id payload) students"
  shows "post_students cfg f payload =
           (respond 201 (RecordBody payload), Holds (Arr (students @ [payload]))) \<and>
         get_students cfg (snd (post_students cfg f payload)) =
           (respond 200 (DocBody (Arr (students @ [payload]))),
            Holds (Arr (students @ [payload]))) \<and>
         count_list (students @ [payload]) payload = 1"
proof -
  have v: "validate payload = None"
    using assms(1-3) by (rule spec_valid_imp_validate)
  have p: "post_students cfg f payload =
           (respond 201 (RecordBody payload), Holds (Arr (students @ [payload])))"
    using post_students_valid [OF v assms(4)] assms(5) by simp
  have g: "get_students cfg (Holds (Arr (students @ [payload]))) =
           (respond 200 (DocBody (Arr (students @ [payload]))),
            Holds (Arr (students @ [payload])))"
    by (rule get_students_nonempty) simp
  have c: "count_list (students @ [payload]) payload = 1"
    using not_listed_by_id [OF assms(5)] by simp
  from p g c show ?thesis by simp
qed

text \<open>
  The example record of the specification, posted when the file holds the empty array and
  the seed is the row of Nicolas Medina.
\<close>

theorem create_then_list_once_witness:
  "spec_valid chelsea \<and> \<not> missing chelsea ''fullName'' \<and> \<not> missing chelsea ''gender'' \<and>
   ensureDataFile cfg_nicolas (Holds (Arr [])) = Holds (Arr [nicolas]) \<and>
   \<not> list_ex (same_id chelsea) [nicolas] \<and>
   post_students cfg_nicolas (Holds (Arr [])) chelsea =
     (respond 201 (RecordBody chelsea), Holds (Arr ([nicolas] @ [chelsea]))) \<and>
   get_students cfg_nicolas (snd (post_students cfg_nicolas (Holds (Arr [])) chelsea)) =
     (respond 200 (DocBody (Arr ([nicolas] @ [chelsea]))), Holds (Arr ([nicolas] @ [chelsea]))) \<and>
   count_list ([nicolas] @ [chelsea]) chelsea = 1"
proof -
  have h1: "spec_valid chelsea" by (rule chelsea_spec_valid)
  have h2: "\<not> missing chelsea ''fullName''" by code_simp
  have h3: "\<not> missing chelsea ''gender''" by code_simp
  have h4: "ensureDataFile cfg_nicolas (Holds (Arr [])) = Holds (Arr [nicolas])"
    by (simp add: ensureDataFile_def cfg_nicolas_def)
  have h5: "\<not> list_ex (same_id chelsea) [nicolas]"
    by code_simp
  from create_then_list_once [OF h1 h2 h3 h4 h5] h1 h2 h3 h4 h5 show ?thesis
    by blast
qed

text \<open>
  C1 as stated fails twice. A candidate whose fullName is two spaces satisfies
  \<open>^[A-Za-z ]{2,}$\<close> and the six other rules, and its studentId is new, but the answer is
  400. And when the persisted collection is the empty array, no stored record has the
  candidate's studentId, but the handler reseeds first and answers 409 for a studentId of
  the seed.
\<close>

theorem create_then_list_counterexample:
  "spec_valid blank_name \<and>
   \<not> list_ex (same_id blank_name) [nicolas] \<and>
   post_students cfg_nicolas (Holds (Arr [nicolas])) blank_name =
     (respond 400 (ErrorBody ''Missing field: fullName''), Holds (Arr [nicolas])) \<and>
   spec_valid nicolas \<and>
   \<not> list_ex (same_id nicolas) [] \<and>
   post_students cfg_nicolas (Holds (Arr [])) nicolas =
     (respond 409 (ErrorBody ''Student ID already exists.''), Holds (Arr [nicolas]))"
  by code_simp

text \<open>
  C2. The claim asks for status 400 when the fullName has characters besides letters
  and spaces. The handler tests fullName for presence only: a candidate with digits and
  punctuation in the name, which breaks that rule alone and which the browser form
  rejects, is answered 201 and written to the file.
\<close>

theorem server_accepts_digits_in_fullName:
  "spec_violations digit_name = [''fullName''] \<and>
   form_errors digit_name = Inr [''Full Name must be letters/spaces.''] \<and>
   post_students cfg_nicolas (Holds (Arr [nicolas])) digit_name =
     (respond 201 (RecordBody digit_name), Holds (Arr [nicolas, digit_name]))"
  by code_simp

text \<open>
  C3, as the code has it. When the persisted collection is the empty array, POST /chat
  answers 400 exactly when the message is absent, not a string or empty, or the bundled
  seed is itself no array or empty. A request without a usable message leaves the file as
  it is. Any other request reads through \<open>readStudents\<close>, which writes the seed in place
  of the empty array before the emptiness is tested; with a seed that is an array and not
  empty the handler goes on: 500 when no credential is configured, else the seed and the
  message go to the completion service, whose failure or empty answer gives 500 and whose
  trimmed answer is relayed with 200.
\<close>

theorem chat_with_empty_collection:
  assumes "f = Holds (Arr [])"
  shows "((status (fst (post_chat cfg f message)) = 400) =
            (message = None \<or> message = Some [] \<or>
             \<not> is_array_nonempty (SEED_STUDENTS cfg))) \<and>
         post_chat cfg f message =
           (case message of
              None \<Rightarrow> (respond 400 (ErrorBody ''Message is required.''), f)
            | Some m \<Rightarrow>
                if m = [] then (respond 400 (ErrorBody ''Message is required.''), f)
                else if \<not> is_array_nonempty (SEED_STUDENTS cfg)
                then (respond 400 (ErrorBody ''No student data available.''),
                      Holds (SEED_STUDENTS cfg))
                else if GROQ_API_KEY cfg = []
                then (respond 500 (ErrorBody ''LLM API key not configured on the server.''),
                      Holds (SEED_STUDENTS cfg))
                else
                  (case llm_post cfg (SEED_STUDENTS cfg) m of
                     Failed \<Rightarrow>
                       (respond 500 (ErrorBody ''Failed to contact LLM API.''),
                        Holds (SEED_STUDENTS cfg))
                   | Answered content \<Rightarrow>
                       (case map_option js_trim content of
                          None \<Rightarrow>
                            (respond 500 (ErrorBody ''Empty reply from LLM.''),
                             Holds (SEED_STUDENTS cfg))
                        | Some reply \<Rightarrow>
                            if reply = []
                            then (respond 500 (ErrorBody ''Empty reply from LLM.''),
                                  Holds (SEED_STUDENTS cfg))
                            else (respond 200 (ReplyBody reply), Holds (SEED_STUDENTS cfg)))))"
proof -
  have e: "ensureDataFile cfg f = Holds (SEED_STUDENTS cfg)"
    using assms by (simp add: ensureDataFile_def)
  have run: "post_chat cfg f message =
           (case message of
              None \<Rightarrow> (respond 400 (ErrorBody ''Message is required.''), f)
            | Some m \<Rightarrow>
                if m = [] then (respond 400 (ErrorBody ''Message is required.''), f)
                else if \<not> is_array_nonempty (SEED_STUDENTS cfg)
                then (respond 400 (ErrorBody ''No student data available.''),
                      Holds (SEED_STUDENTS cfg))
                else if GROQ_API_KEY cfg = []
                then (respond 500 (ErrorBody ''LLM API key not configured on the server.''),
                      Holds (SEED_STUDENTS cfg))
                else
                  (case llm_post cfg (SEED_STUDENTS cfg) m of
                     Failed \<Rightarrow>
                       (respond 500 (ErrorBody ''Failed to contact LLM API.''),
                        Holds (SEED_STUDENTS cfg))
                   | Answered content \<Rightarrow>
                       (case map_option js_trim content of
                          None \<Rightarrow>
                            (respond 500 (ErrorBody ''Empty reply from LLM.''),
                             Holds (SEED_STUDENTS cfg))
                        | Some reply \<Rightarrow>
                            if reply = []
                            then (respond 500 (ErrorBody ''Empty reply from LLM.''),
                                  Holds (SEED_STUDENTS cfg))
                            else (respond 200 (ReplyBody reply), Holds (SEED_STUDENTS cfg)))))"
    by (simp add: post_chat_def readStudents_ensure [OF e] split: option.splits)
  have code: "(status (fst (post_chat cfg f message)) = 400) =
            (message = None \<or> message = Some [] \<or>
             \<not> is_array_nonempty (SEED_STUDENTS cfg))"
  proof (cases message)
    case None
    then show ?thesis by (simp add: post_chat_def respond_def)
  next
    case (Some m)
    then show ?thesis
      by (auto simp: post_chat_def readStudents_ensure [OF e] respond_def
          split: llm_outcome.splits option.splits)
  qed
  from code run show ?thesis by (rule conjI)
qed

text \<open>
  The seed is one record and no credential is configured: the file is reseeded and the
  request ends at the credential check.
\<close>

theorem chat_with_empty_collection_witness:
  "Holds (Arr []) = Holds (Arr []) \<and>
   status (fst (post_chat cfg_nicolas (Holds (Arr [])) (Some ''hi''))) \<noteq> 400 \<and>
   post_chat cfg_nicolas (Holds (Arr [])) (Some ''hi'') =
     (respond 500 (ErrorBody ''LLM API key not configured on the server.''),
      Holds (Arr [nicolas]))"
proof -
  have h: "Holds (Arr []) = Holds (Arr [])"
    by (rule refl)
  have seed: "SEED_STUDENTS cfg_nicolas = Arr [nicolas]" and key: "GROQ_API_KEY cfg_nicolas = []"
    by (simp_all add: cfg_nicolas_def)
  from chat_with_empty_collection [OF h, of cfg_nicolas "Some ''hi''"] show ?thesis
    by (simp add: seed key is_array_nonempty_def respond_def)
qed

text \<open>
  C3 as stated fails: with the empty array persisted, a seed of one record, a credential
  and an answering service, the request is answered 200.
\<close>

theorem chat_with_empty_collection_counterexample:
  "post_chat cfg_live (Holds (Arr [])) (Some ''How many students are there?'') =
     (respond 200 (ReplyBody ''There is one student.''), Holds (Arr [nicolas]))"
  by code_simp

text \<open>
  C4, as the code has it. For every candidate that breaks two or more rules of the
  specification, POST /students answers 400 with the message of the first failing check
  in the order in which the handler runs its checks (presence of studentId, fullName,
  gender, gmail, program, yearLevel, university; then the gmail pattern, the yearLevel
  patterns, the studentId pattern), and the file is left as it was.
\<close>

theorem create_reports_first_failing_check:
  assumes "2 \<le> length (spec_violations payload)"
  shows "\<exists>e. find (check_fails payload) server_checks = Some e \<and>
           post_students cfg f payload = (respond 400 (ErrorBody (error_text e)), f)"
proof -
  have "validate payload \<noteq> None"
    using assms validate_None_violations [of payload] by auto
  then obtain e where e: "validate payload = Some e"
    by blast
  with post_students_invalid [OF e] show ?thesis
    by (simp add: validate_first_failing)
qed

text \<open>
  A candidate with a malformed studentId and an address that is not at gmail.com.
\<close>

theorem create_reports_first_failing_check_witness:
  "2 \<le> length (spec_violations two_bad) \<and>
   (\<exists>e. find (check_fails two_bad) server_checks = Some e \<and>
      post_students cfg_nicolas (Holds (Arr [nicolas])) two_bad =
        (respond 400 (ErrorBody (error_text e)), Holds (Arr [nicolas])))"
proof -
  have h: "2 \<le> length (spec_violations two_bad)"
    by code_simp
  from create_reports_first_failing_check [OF h] h show ?thesis by blast
qed

text \<open>
  C4 as stated fails: the first broken rule in the order of the table is the one for
  studentId, and the message sent is the one for gmail.
\<close>

theorem create_first_failing_counterexample:
  "spec_violations two_bad = [''studentId'', ''gmail''] \<and>
   post_students cfg_nicolas (Holds (Arr [nicolas])) two_bad =
     (respond 400 (ErrorBody ''Email must be a valid Gmail address.''), Holds (Arr [nicolas]))"
  by code_simp

text \<open>
  C5, as the code has it. For every candidate that passes the checks of POST /students
  and whose studentId is the studentId of a record of the stored collection, the answer
  is 409 and the file is left as it was.
\<close>

theorem create_duplicate_conflict:
  assumes "validate payload = None"
    and "f = Holds (Arr students)"
    and "list_ex (same_id payload) students"
  shows "post_students cfg f payload =
           (respond 409 (ErrorBody ''Student ID already exists.''), f)"
proof -
  from assms(3) have "students \<noteq> []"
    by auto
  then have "ensureDataFile cfg f = Holds (Arr students)"
    using assms(2) by (simp add: ensureDataFile_nonempty)
  from post_students_valid [OF assms(1) this] assms(2,3) show ?thesis
    by simp
qed

text \<open>
  The example record of the specification, posted a second time.
\<close>

theorem create_duplicate_conflict_witness:
  "validate chelsea = None \<and> Holds (Arr [nicolas, chelsea]) = Holds (Arr [nicolas, chelsea]) \<and>
   list_ex (same_id chelsea) [nicolas, chelsea] \<and>
   post_students cfg_nicolas (Holds (Arr [nicolas, chelsea])) chelsea =
     (respond 409 (ErrorBody ''Student ID already exists.''), Holds (Arr [nicolas, chelsea]))"
proof -
  have h1: "validate chelsea = None" by (rule chelsea_validate)
  have h3: "list_ex (same_id chelsea) [nicolas, chelsea]" by code_simp
  from create_duplicate_conflict [OF h1 refl h3] h1 h3 show ?thesis by blast
qed

text \<open>
  C5 as stated fails: a candidate that has the studentId of a stored record and nothing
  else is answered 400, the checks running before the collection is read.
\<close>

theorem create_duplicate_counterexample:
  "list_ex (same_id only_id) [chelsea] \<and>
   post_students cfg_nicolas (Holds (Arr [chelsea])) only_id =
     (respond 400 (ErrorBody ''Missing field: fullName''), Holds (Arr [chelsea]))"
  by code_simp

text \<open>
  C6, as the code has it. Let the current collection be what DELETE /students/:id reads:
  the persisted document, or the seed, written first, when the file is absent, unreadable
  or holds the empty array. When it is an array and a record of it has the identifier, the
  first such record is removed, the rest is written and the removed record is answered
  with 200; when no record of it has the identifier, the answer is 404 and the file holds
  the current collection (so a persisted array that is not empty is unchanged).
\<close>

theorem delete_present_or_absent:
  assumes "ensureDataFile cfg f = Holds (Arr students)"
  shows "if list_ex (has_id ident) students
         then \<exists>pre r post.
                students = pre @ r # post \<and> \<not> list_ex (has_id ident) pre \<and> has_id ident r \<and>
                delete_student cfg f ident =
                  (respond 200 (RecordBody r), Holds (Arr (pre @ post)))
         else delete_student cfg f ident =
                (respond 404 (ErrorBody ''Not found''), Holds (Arr students))"
proof (cases "findIndex (has_id ident) students")
  case None
  then have "\<not> list_ex (has_id ident) students"
    by (simp add: findIndex_None)
  with None assms show ?thesis
    by (simp add: delete_student_def readStudents_ensure)
next
  case (Some i)
  then have ex: "list_ex (has_id ident) students"
    using findIndex_None [of "has_id ident" students] by simp
  from findIndex_Some [OF Some] have
    parts: "students = take i students @ students ! i # drop (Suc i) students" and
    pre: "\<not> list_ex (has_id ident) (take i students)" and
    hit: "has_id ident (students ! i)"
    by simp_all
  have res: "delete_student cfg f ident =
      (respond 200 (RecordBody (students ! i)),
       Holds (Arr (take i students @ drop (Suc i) students)))"
    using assms Some
    by (simp add: delete_student_def readStudents_ensure splice1_def writeStudents_def)
  from parts pre hit res have "\<exists>pre r post.
      students = pre @ r # post \<and> \<not> list_ex (has_id ident) pre \<and> has_id ident r \<and>
      delete_student cfg f ident = (respond 200 (RecordBody r), Holds (Arr (pre @ post)))"
    by blast
  with ex show ?thesis by simp
qed

text \<open>
  Two records are stored and the identifier is the studentId of neither.
\<close>

theorem delete_present_or_absent_witness:
  "ensureDataFile cfg_nicolas (Holds (Arr [nicolas, chelsea])) = Holds (Arr [nicolas, chelsea]) \<and>
   (if list_ex (has_id ''BX-000-00000'') [nicolas, chelsea]
    then \<exists>pre r post.
           [nicolas, chelsea] = pre @ r # post \<and> \<not> list_ex (has_id ''BX-000-00000'') pre \<and>
           has_id ''BX-000-00000'' r \<and>
           delete_student cfg_nicolas (Holds (Arr [nicolas, chelsea])) ''BX-000-00000'' =
             (respond 200 (RecordBody r), Holds (Arr (pre @ post)))
    else delete_student cfg_nicolas (Holds (Arr [nicolas, chelsea])) ''BX-000-00000'' =
           (respond 404 (ErrorBody ''Not found''), Holds (Arr [nicolas, chelsea])))"
proof -
  have h: "ensureDataFile cfg_nicolas (Holds (Arr [nicolas, chelsea])) =
           Holds (Arr [nicolas, chelsea])"
    by (simp add: ensureDataFile_nonempty)
  from delete_present_or_absent [OF h, of "''BX-000-00000''"] h show ?thesis by blast
qed

text \<open>
  C6 as stated fails when the persisted collection is the empty array, where every
  identifier is absent: for a studentId of the seed the answer is 200 with the record of the
  seed, and for another identifier the answer is 404 but the file has changed to the seed.
\<close>

theorem delete_absent_counterexample:
  "\<not> list_ex (has_id ''BM-113-00002'') [] \<and>
   delete_student cfg_nicolas (Holds (Arr [])) ''BM-113-00002'' =
     (respond 200 (RecordBody nicolas), Holds (Arr [])) \<and>
   \<not> list_ex (has_id ''BX-000-00000'') [] \<and>
   delete_student cfg_nicolas (Holds (Arr [])) ''BX-000-00000'' =
     (respond 404 (ErrorBody ''Not found''), Holds (Arr [nicolas]))"
  by code_simp

text \<open>
  C7. Seeding is idempotent: when the persisted collection is absent or is the empty
  array, GET /students replaces it by the bundled seed, nothing of the old content being
  kept, and answers 200 with the seed; the next GET /students answers the same collection
  and leaves the file as it is.
\<close>

theorem list_seeds_once:
  assumes "f = NoFile \<or> f = Holds (Arr [])"
  shows "get_students cfg f =
           (respond 200 (DocBody (SEED_STUDENTS cfg)), Holds (SEED_STUDENTS cfg)) \<and>
         get_students cfg (snd (get_students cfg f)) =
           (respond 200 (DocBody (SEED_STUDENTS cfg)), Holds (SEED_STUDENTS cfg))"
  using assms
  by (auto simp: get_students_def readStudents_def ensureDataFile_def readJson_def)

text \<open>The file holds the empty array and the seed is the row of Nicolas Medina.\<close>

theorem list_seeds_once_witness:
  "(Holds (Arr []) = NoFile \<or> Holds (Arr []) = Holds (Arr [])) \<and>
   get_students cfg_nicolas (Holds (Arr [])) =
     (respond 200 (DocBody (Arr [nicolas])), Holds (Arr [nicolas])) \<and>
   get_students cfg_nicolas (snd (get_students cfg_nicolas (Holds (Arr [])))) =
     (respond 200 (DocBody (Arr [nicolas])), Holds (Arr [nicolas]))"
proof -
  have h: "Holds (Arr []) = NoFile \<or> Holds (Arr []) = Holds (Arr [])"
    by simp
  have seed: "SEED_STUDENTS cfg_nicolas = Arr [nicolas]"
    by (simp add: cfg_nicolas_def)
  from h list_seeds_once [OF h, of cfg_nicolas] show ?thesis
    unfolding seed by blast
qed

text \<open>
  C8, as the code has it. Let the six other fields pass their checks and let the
  studentId be new to the current collection. POST /students answers 201 exactly when
  yearLevel is a string of one or more decimal digits (\<open>^\d+$\<close>, which holds for "0"
  too) or matches \<open>^\d(st|nd|rd|th)\s+Year$\<close> without regard to case; for any other
  value the answer is 400 with a message that names the field: "Missing field:
  yearLevel" when the value is absent or blank, the Year Level message otherwise.
\<close>

theorem year_level_rule:
  assumes "\<not> missing p ''studentId''" "\<not> missing p ''fullName''" "\<not> missing p ''gender''"
    and "\<not> missing p ''gmail''" "\<not> missing p ''program''" "\<not> missing p ''university''"
    and "test GMAIL_RE (field p ''gmail'')"
    and "test STUDENT_ID_RE (field p ''studentId'')"
    and "ensureDataFile cfg f = Holds (Arr students)"
    and "\<not> list_ex (same_id p) students"
  shows "if \<exists>y. field p ''yearLevel'' = Some y \<and>
                ((y \<noteq> [] \<and> list_all is_digit y) \<or> matches ORDINAL_RE y)
         then post_students cfg f p =
                (respond 201 (RecordBody p), Holds (Arr (students @ [p])))
         else post_students cfg f p =
                (respond 400 (ErrorBody ''Missing field: yearLevel''), f) \<or>
              post_students cfg f p =
                (respond 400 (ErrorBody ''Year Level must be like \"1st Year\" or a number.''), f)"
proof (cases "\<exists>y. field p ''yearLevel'' = Some y \<and>
                ((y \<noteq> [] \<and> list_all is_digit y) \<or> matches ORDINAL_RE y)")
  case True
  then obtain y where y: "field p ''yearLevel'' = Some y"
    and ok: "(y \<noteq> [] \<and> list_all is_digit y) \<or> matches ORDINAL_RE y"
    by blast
  from ok obtain c cs where "y = c # cs" "is_digit c \<or> either_case is_digit c"
    using digits_first ordinal_first by blast
  with y have "\<not> missing p ''yearLevel''"
    using not_missing_Cons space_not_digit space_not_digit_ci by blast
  with assms(1-6) have "find (missing p) required = None"
    by (simp add: find_missing_None)
  with assms(7,8) y ok have "validate p = None"
    by (auto simp: validate_None_iff test_Some numyear_digits)
  from post_students_valid [OF this assms(9)] assms(10)
  have "post_students cfg f p = (respond 201 (RecordBody p), Holds (Arr (students @ [p])))"
    by simp
  then show ?thesis
    unfolding if_P [OF True] .
next
  case False
  show ?thesis
  proof (cases "missing p ''yearLevel''")
    case True
    with assms(1-5) have "validate p = Some (MissingField ''yearLevel'')"
      by (simp add: validate_def required_def)
    from post_students_invalid [OF this, of cfg f]
    have "post_students cfg f p = (respond 400 (ErrorBody ''Missing field: yearLevel''), f)"
      by simp
    then show ?thesis
      unfolding if_not_P [OF False] by blast
  next
    case nm: False
    then obtain y where y: "field p ''yearLevel'' = Some y"
      using not_missing_field by blast
    with False have bad: "\<not> matches NUMYEAR_RE y" "\<not> matches ORDINAL_RE y"
      by (auto simp: numyear_digits)
    from nm assms(1-6) have "find (missing p) required = None"
      by (simp add: find_missing_None)
    with assms(7) y bad have "validate p = Some BadYearLevel"
      by (simp add: validate_def test_Some)
    from post_students_invalid [OF this, of cfg f]
    have "post_students cfg f p =
        (respond 400 (ErrorBody ''Year Level must be like \"1st Year\" or a number.''), f)"
      by simp
    then show ?thesis
      unfolding if_not_P [OF False] by blast
  qed
qed

text \<open>
  The example of the specification: yearLevel is "five".
\<close>

theorem year_level_rule_witness:
  "\<not> missing year_five ''studentId'' \<and> \<not> missing year_five ''fullName'' \<and>
   \<not> missing year_five ''gender'' \<and> \<not> missing year_five ''gmail'' \<and>
   \<not> missing year_five ''program'' \<and> \<not> missing year_five ''university'' \<and>
   test GMAIL_RE (field year_five ''gmail'') \<and>
   test STUDENT_ID_RE (field year_five ''studentId'') \<and>
   ensureDataFile cfg_nicolas (Holds (Arr [nicolas])) = Holds (Arr [nicolas]) \<and>
   \<not> list_ex (same_id year_five) [nicolas] \<and>
   (if \<exists>y. field year_five ''yearLevel'' = Some y \<and>
           ((y \<noteq> [] \<and> list_all is_digit y) \<or> matches ORDINAL_RE y)
    then post_students cfg_nicolas (Holds (Arr [nicolas])) year_five =
           (respond 201 (RecordBody year_five), Holds (Arr ([nicolas] @ [year_five])))
    else post_students cfg_nicolas (Holds (Arr [nicolas])) year_five =
           (respond 400 (ErrorBody ''Missing field: yearLevel''), Holds (Arr [nicolas])) \<or>
         post_students cfg_nicolas (Holds (Arr [nicolas])) year_five =
           (respond 400 (ErrorBody ''Year Level must be like \"1st Year\" or a number.''),
            Holds (Arr [nicolas])))"
proof -
  have h1: "\<not> missing year_five ''studentId''" by code_simp
  have h2: "\<not> missing year_five ''fullName''" by code_simp
  have h3: "\<not> missing year_five ''gender''" by code_simp
  have h4: "\<not> missing year_five ''gmail''" by code_simp
  have h5: "\<not> missing year_five ''program''" by code_simp
  have h6: "\<not> missing year_five ''university''" by code_simp
  have h7: "test GMAIL_RE (field year_five ''gmail'')" by code_simp
  have h8: "test STUDENT_ID_RE (field year_five ''studentId'')" by code_simp
  have h9: "ensureDataFile cfg_nicolas (Holds (Arr [nicolas])) = Holds (Arr [nicolas])"
    by (simp add: ensureDataFile_nonempty)
  have h10: "\<not> list_ex (same_id year_five) [nicolas]" by code_simp
  from year_level_rule [OF h1 h2 h3 h4 h5 h6 h7 h8 h9 h10] h1 h2 h3 h4 h5 h6 h7 h8 h9 h10
  show ?thesis by blast
qed

text \<open>
  C8 as stated fails: "0" is no positive integer and has no ordinal form, and a candidate
  with yearLevel "0" is answered 201.
\<close>

theorem year_level_zero_counterexample:
  "field year_zero ''yearLevel'' = Some ''0'' \<and>
   \<not> spec_bare_positive_integer ''0'' \<and> \<not> matches ORDINAL_RE ''0'' \<and>
   post_students cfg_nicolas (Holds (Arr [nicolas])) year_zero =
     (respond 201 (RecordBody year_zero), Holds (Arr [nicolas, year_zero]))"
  by code_simp

text \<open>
  C9. POST /students neither projects nor cleans the request body: whenever it answers
  201, the body of the answer is the payload itself and the file holds the collection that
  was read with the payload itself appended, whatever properties the payload has besides
  the seven fields.
\<close>

theorem create_stores_payload_verbatim:
  assumes "status (fst (post_students cfg f payload)) = 201"
  shows "\<exists>students. ensureDataFile cfg f = Holds (Arr students) \<and>
           post_students cfg f payload =
             (respond 201 (RecordBody payload), Holds (Arr (students @ [payload])))"
proof -
  obtain d where d: "ensureDataFile cfg f = Holds d"
    using ensureDataFile_Holds by blast
  from assms have v: "validate payload = None"
    by (auto simp: post_students_def respond_def split: option.splits)
  show ?thesis
  proof (cases d)
    case (Arr students)
    with assms d v show ?thesis
      by (auto simp: post_students_def readStudents_ensure respond_def writeStudents_def
          split: if_splits)
  next
    case (NonArr t)
    with assms d v show ?thesis
      by (simp add: post_students_def readStudents_ensure respond_def)
  qed
qed

text \<open>The payload carries an eighth property, \<open>nickname\<close>.\<close>

theorem create_stores_payload_verbatim_witness:
  "status (fst (post_students cfg_nicolas (Holds (Arr [nicolas])) chelsea_nick)) = 201 \<and>
   (\<exists>students. ensureDataFile cfg_nicolas (Holds (Arr [nicolas])) = Holds (Arr students) \<and>
      post_students cfg_nicolas (Holds (Arr [nicolas])) chelsea_nick =
        (respond 201 (RecordBody chelsea_nick), Holds (Arr (students @ [chelsea_nick]))))"
proof -
  have h: "status (fst (post_students cfg_nicolas (Holds (Arr [nicolas])) chelsea_nick)) = 201"
    by code_simp
  from create_stores_payload_verbatim [OF h] h show ?thesis by blast
qed



end
